theory Spec2Isabelle
  imports Main "HOL-Library.AList"
begin

section \<open>The chat proxy of \<^verbatim>\<open>netlify/functions/chat.js\<close>\<close>

text \<open>
  The repository is one Netlify function, \<^verbatim>\<open>exports.handler\<close>, that relays a chat
  payload to the Gemini HTTP API. The handler is embedded as a HOL function of the
  inbound event and of the platform it runs on. Everything the handler reads from
  outside its own text is a field of the platform: the JSON parser, the process
  environment, the clock and the HTTP client. What the handler decides (the order of
  the checks, the objects it builds, the status codes and the \<^verbatim>\<open>try\<close>/\<^verbatim>\<open>catch\<close>
  blocks) is written out as in the source. The two \<^verbatim>\<open>console\<close> calls write a log the
  caller never sees and are left out.
\<close>

subsection \<open>JavaScript values that come out of \<^verbatim>\<open>JSON.parse\<close>\<close>

text \<open>
  Strings are byte strings (the UTF-8 text). A number is carried by its canonical
  rendering, the string \<^verbatim>\<open>Number.prototype.toString\<close> gives for it (\<^verbatim>\<open>0.8\<close>, \<^verbatim>\<open>40\<close>,
  \<^verbatim>\<open>1e+21\<close>, \<^verbatim>\<open>Infinity\<close>): the handler only tests numbers for truthiness and prints
  them, and the rendering decides both. An object is the list of its own properties in
  order. The value \<^verbatim>\<open>undefined\<close> is not a JSON value: a property read yields a
  \<open>json option\<close>, with \<open>None\<close> for \<^verbatim>\<open>undefined\<close>.
\<close>

datatype json =
    JNull
  | JBool bool
  | JNum string
  | JStr string
  | JArr "json list"
  | JObj "(string \<times> json) list"

text \<open>An exception that leaves the handler: the promise it returns is rejected.\<close>

datatype uncaught = TypeError

text \<open>
  The value a platform call rejects with, seen through the one property the handler
  reads, \<^verbatim>\<open>err.message\<close> (\<open>None\<close> when the value has none).
\<close>

datatype rejection = Rejection (message: "string option")

text \<open>Truthiness, as \<^verbatim>\<open>!x\<close> and \<^verbatim>\<open>x || y\<close> test it.\<close>

fun truthy :: "json option \<Rightarrow> bool" where
  "truthy None = False"
| "truthy (Some JNull) = False"
| "truthy (Some (JBool b)) = b"
| "truthy (Some (JNum n)) = (n \<noteq> ''0'' \<and> n \<noteq> ''NaN'')"
| "truthy (Some (JStr s)) = (s \<noteq> [])"
| "truthy (Some (JArr vs)) = True"
| "truthy (Some (JObj kvs)) = True"

text \<open>\<^verbatim>\<open>Array.isArray\<close>.\<close>

fun isArray :: "json option \<Rightarrow> bool" where
  "isArray (Some (JArr vs)) = True"
| "isArray v = False"

text \<open>
  The property read \<^verbatim>\<open>payload.name\<close>, for the names the handler reads (\<^verbatim>\<open>contents\<close>,
  \<^verbatim>\<open>model\<close>, \<^verbatim>\<open>generationConfig\<close>: no prototype has them, so only an own property of an
  object answers). Reading a property of \<^verbatim>\<open>null\<close> throws a TypeError.
\<close>

fun own_prop :: "json \<Rightarrow> string \<Rightarrow> json option" where
  "own_prop (JObj kvs) name = map_of kvs name"
| "own_prop v name = None"

definition get_prop :: "json \<Rightarrow> string \<Rightarrow> uncaught + json option" where
  "get_prop v name = (if v = JNull then Inl TypeError else Inr (own_prop v name))"

text \<open>\<^verbatim>\<open>x || d\<close> with a default \<open>d\<close> that is a value.\<close>

definition or_else :: "json option \<Rightarrow> json \<Rightarrow> json" where
  "or_else x d = (case x of Some v \<Rightarrow> if truthy x then v else d | None \<Rightarrow> d)"

subsection \<open>Printing\<close>

fun intercalate :: "string \<Rightarrow> string list \<Rightarrow> string" where
  "intercalate sep [] = []"
| "intercalate sep [x] = x"
| "intercalate sep (x # y # ys) = x @ sep @ intercalate sep (y # ys)"

definition digit_char :: "nat \<Rightarrow> char" where
  "digit_char d = ''0123456789abcdef'' ! d"

text \<open>The decimal rendering of a status code, as the template literal prints it.\<close>

function decimal :: "nat \<Rightarrow> string" where
  "decimal n = (if n < 10 then [digit_char n] else decimal (n div 10) @ [digit_char (n mod 10)])"
  by pat_completeness auto
termination
  by (relation "measure id") auto

declare decimal.simps [simp del]

text \<open>
  \<^verbatim>\<open>QuoteJSONString\<close>: the quote, the backslash and the control characters are escaped,
  every other byte is copied.
\<close>

definition escape_char :: "char \<Rightarrow> string" where
  "escape_char c =
     (if c = CHR 0x22 then [CHR 0x5C, CHR 0x22]
      else if c = CHR 0x5C then [CHR 0x5C, CHR 0x5C]
      else if c = CHR 0x08 then [CHR 0x5C, CHR ''b'']
      else if c = CHR 0x0C then [CHR 0x5C, CHR ''f'']
      else if c = CHR 0x0A then [CHR 0x5C, CHR ''n'']
      else if c = CHR 0x0D then [CHR 0x5C, CHR ''r'']
      else if c = CHR 0x09 then [CHR 0x5C, CHR ''t'']
      else if (of_char c :: nat) < 32
        then [CHR 0x5C, CHR ''u'', CHR ''0'', CHR ''0'',
              digit_char (of_char c div 16), digit_char (of_char c mod 16)]
      else [c])"

definition quote :: "string \<Rightarrow> string" where
  "quote s = [CHR 0x22] @ concat (map escape_char s) @ [CHR 0x22]"

text \<open>
  \<^verbatim>\<open>JSON.stringify\<close> on a JSON value. A number that is not finite prints as \<^verbatim>\<open>null\<close>.
\<close>

fun JSON_stringify :: "json \<Rightarrow> string" where
  "JSON_stringify JNull = ''null''"
| "JSON_stringify (JBool b) = (if b then ''true'' else ''false'')"
| "JSON_stringify (JNum n) =
     (if n = ''Infinity'' \<or> n = ''-Infinity'' \<or> n = ''NaN'' then ''null'' else n)"
| "JSON_stringify (JStr s) = quote s"
| "JSON_stringify (JArr vs) = ''['' @ intercalate '','' (map JSON_stringify vs) @ '']''"
| "JSON_stringify (JObj kvs) =
     ''{'' @ intercalate '','' (map (\<lambda>(k, v). quote k @ '':'' @ JSON_stringify v) kvs) @ ''}''"

text \<open>
  An object literal whose property values may be \<^verbatim>\<open>undefined\<close>, as \<^verbatim>\<open>JSON.stringify\<close>
  sees it: a property whose value is \<^verbatim>\<open>undefined\<close> is left out.
\<close>

fun object_literal :: "(string \<times> json option) list \<Rightarrow> (string \<times> json) list" where
  "object_literal [] = []"
| "object_literal ((k, None) # ps) = object_literal ps"
| "object_literal ((k, Some v) # ps) = (k, v) # object_literal ps"

text \<open>
  \<^verbatim>\<open>ToString\<close>, which the template literal of the URL applies to the model. An array
  joins its elements with commas, \<^verbatim>\<open>null\<close> elements printing as nothing. An object
  prints as \<^verbatim>\<open>[object Object]\<close> through \<^verbatim>\<open>Object.prototype.toString\<close>; an object with
  an own property \<^verbatim>\<open>toString\<close> hides that method behind a value that cannot be called,
  \<^verbatim>\<open>valueOf\<close> yields no primitive, and the conversion throws a TypeError.
\<close>

fun ToString :: "json \<Rightarrow> uncaught + string"
  and ToString_elements :: "json list \<Rightarrow> uncaught + string list" where
  "ToString JNull = Inr ''null''"
| "ToString (JBool b) = Inr (if b then ''true'' else ''false'')"
| "ToString (JNum n) = Inr n"
| "ToString (JStr s) = Inr s"
| "ToString (JArr vs) =
     (case ToString_elements vs of Inl e \<Rightarrow> Inl e | Inr ss \<Rightarrow> Inr (intercalate '','' ss))"
| "ToString (JObj kvs) =
     (if ''toString'' \<in> fst ` set kvs then Inl TypeError else Inr ''[object Object]'')"
| "ToString_elements [] = Inr []"
| "ToString_elements (v # vs) =
     (case (if v = JNull then Inr [] else ToString v) of
        Inl e \<Rightarrow> Inl e
      | Inr s \<Rightarrow> (case ToString_elements vs of Inl e \<Rightarrow> Inl e | Inr ss \<Rightarrow> Inr (s # ss)))"

subsection \<open>The platform and the messages\<close>

datatype event_body = BodyUndefined | BodyNull | BodyText string

record event =
  httpMethod :: string
  body :: event_body

text \<open>The object the handler returns; \<open>response_body = None\<close> when it has no \<^verbatim>\<open>body\<close>.\<close>

record response =
  statusCode :: nat
  headers :: "(string \<times> string) list"
  response_body :: "string option"

text \<open>The arguments of the one \<^verbatim>\<open>fetch\<close> call.\<close>

record fetch_request =
  url :: string
  fetch_method :: string
  fetch_headers :: "(string \<times> string) list"
  fetch_body :: string

text \<open>
  The upstream response: its status, and what \<^verbatim>\<open>response.text()\<close> and
  \<^verbatim>\<open>response.json()\<close> settle to when the handler awaits them.
\<close>

record upstream_response =
  status :: nat
  text_result :: "rejection + string"
  json_result :: "rejection + json"

text \<open>\<^verbatim>\<open>response.ok\<close>: the status is in the range 200 to 299.\<close>

definition ok :: "upstream_response \<Rightarrow> bool" where
  "ok r = (200 \<le> status r \<and> status r < 300)"

text \<open>
  The platform: \<^verbatim>\<open>JSON.parse\<close> (\<open>None\<close> when it throws), the environment variable
  (\<open>None\<close> when it is not set), the text of \<^verbatim>\<open>new Date().toISOString()\<close> at the
  invocation, and \<^verbatim>\<open>fetch\<close> (\<open>Inl\<close> when the promise is rejected).
\<close>

record platform =
  JSON_parse :: "string \<Rightarrow> json option"
  GEMINI_API_KEY :: "string option"
  now :: string
  fetch :: "fetch_request \<Rightarrow> rejection + upstream_response"

subsection \<open>The handler\<close>

text \<open>
  \<^verbatim>\<open>corsHeaders(extra)\<close>: the four fixed headers, then the spread of \<open>extra\<close>, which
  replaces the value of a name already there and appends a new one.
\<close>

definition corsHeaders :: "(string \<times> string) list \<Rightarrow> (string \<times> string) list" where
  "corsHeaders extra =
     fold (\<lambda>(k, v) hs. AList.update k v hs) extra
       [(''Access-Control-Allow-Origin'', ''*''),
        (''Access-Control-Allow-Methods'', ''POST,OPTIONS,GET''),
        (''Access-Control-Allow-Headers'', ''Content-Type, Authorization''),
        (''Content-Type'', ''application/json'')]"

text \<open>
  The shape every branch but the preflight returns:
  \<^verbatim>\<open>{ statusCode, headers: corsHeaders(), body: JSON.stringify(value) }\<close>.
\<close>

definition respond :: "nat \<Rightarrow> json \<Rightarrow> response" where
  "respond code v =
     \<lparr>statusCode = code, headers = corsHeaders [], response_body = Some (JSON_stringify v)\<rparr>"

definition error_object :: "string \<Rightarrow> json" where
  "error_object msg = JObj [(''error'', JStr msg)]"

text \<open>\<^verbatim>\<open>event.body || '{}'\<close>.\<close>

fun body_or_empty_object :: "event_body \<Rightarrow> string" where
  "body_or_empty_object (BodyText s) = (if s = [] then ''{}'' else s)"
| "body_or_empty_object b = ''{}''"

definition default_model :: json where
  "default_model = JStr ''gemini-2.5-flash''"

definition default_generationConfig :: json where
  "default_generationConfig =
     JObj [(''temperature'', JNum ''0.8''), (''topK'', JNum ''40''),
           (''topP'', JNum ''0.95''), (''maxOutputTokens'', JNum ''1024'')]"

text \<open>Line 63: the URL, from the model and the key.\<close>

definition apiUrl :: "json \<Rightarrow> string \<Rightarrow> uncaught + string" where
  "apiUrl model key =
     (case ToString model of
        Inl e \<Rightarrow> Inl e
      | Inr m \<Rightarrow>
          Inr (''https://generativelanguage.googleapis.com/v1beta/models/'' @ m
               @ '':generateContent?key='' @ key))"

text \<open>Lines 66 to 74: the object literal \<^verbatim>\<open>requestBody\<close>.\<close>

definition requestBody :: "json \<Rightarrow> json" where
  "requestBody payload =
     JObj (object_literal
       [(''contents'', own_prop payload ''contents''),
        (''generationConfig'',
           Some (or_else (own_prop payload ''generationConfig'') default_generationConfig))])"

text \<open>Lines 62 to 82: the call the handler is about to make, for a payload that passed.\<close>

definition upstream_request :: "string \<Rightarrow> json \<Rightarrow> uncaught + fetch_request" where
  "upstream_request key payload =
     (case apiUrl (or_else (own_prop payload ''model'') default_model) key of
        Inl e \<Rightarrow> Inl e
      | Inr u \<Rightarrow>
          Inr \<lparr>url = u, fetch_method = ''POST'',
               fetch_headers = [(''Content-Type'', ''application/json'')],
               fetch_body = JSON_stringify (requestBody payload)\<rparr>)"

text \<open>Lines 103 to 110: the \<^verbatim>\<open>catch\<close> block.\<close>

definition failure_message :: "rejection \<Rightarrow> string" where
  "failure_message err =
     (case message err of
        None \<Rightarrow> ''Failed to call Gemini API''
      | Some m \<Rightarrow> if m = [] then ''Failed to call Gemini API'' else m)"

definition call_failed :: "rejection \<Rightarrow> response" where
  "call_failed err = respond 500 (error_object (failure_message err))"

text \<open>Lines 76 to 110: the \<^verbatim>\<open>try\<close> block with its \<^verbatim>\<open>catch\<close>.\<close>

definition relay :: "platform \<Rightarrow> fetch_request \<Rightarrow> response" where
  "relay w req =
     (case fetch w req of
        Inl err \<Rightarrow> call_failed err
      | Inr r \<Rightarrow>
          if \<not> ok r then
            (case text_result r of
               Inl err \<Rightarrow> call_failed err
             | Inr errorText \<Rightarrow>
                 respond (status r)
                   (JObj [(''error'', JStr (''Gemini API Error: '' @ decimal (status r))),
                          (''details'', JStr errorText)]))
          else
            (case json_result r of
               Inl err \<Rightarrow> call_failed err
             | Inr data \<Rightarrow> respond 200 data))"

text \<open>
  \<^verbatim>\<open>exports.handler\<close>. The result is the list of the \<^verbatim>\<open>fetch\<close> calls made, and either
  the response returned or the exception that left the handler.
\<close>

definition handler :: "platform \<Rightarrow> event \<Rightarrow> fetch_request list \<times> (uncaught + response)" where
  \<open>handler w ev =
     (if httpMethod ev = ''OPTIONS'' then
        ([], Inr \<lparr>statusCode = 204, headers = corsHeaders [], response_body = None\<rparr>)
      else if httpMethod ev = ''GET'' then
        ([], Inr (respond 200 (JObj [(''status'', JStr ''ok''), (''time'', JStr (now w))])))
      else if httpMethod ev \<noteq> ''POST'' then
        ([], Inr (respond 405 (error_object ''Method Not Allowed'')))
      else
        (case GEMINI_API_KEY w of
           None \<Rightarrow>
             ([], Inr (respond 500 (error_object
                ''GEMINI_API_KEY not configured in Netlify environment variables'')))
         | Some key \<Rightarrow>
             if key = [] then
               ([], Inr (respond 500 (error_object
                  ''GEMINI_API_KEY not configured in Netlify environment variables'')))
             else
               (case JSON_parse w (body_or_empty_object (body ev)) of
                  None \<Rightarrow> ([], Inr (respond 400 (error_object ''Invalid JSON body'')))
                | Some payload \<Rightarrow>
                    (case get_prop payload ''contents'' of
                       Inl e \<Rightarrow> ([], Inl e)
                     | Inr contents \<Rightarrow>
                         if \<not> truthy contents \<or> \<not> isArray contents then
                           ([], Inr (respond 400 (error_object
                              ''Request must include "contents" array'')))
                         else
                           (case upstream_request key payload of
                              Inl e \<Rightarrow> ([], Inl e)
                            | Inr req \<Rightarrow> ([req], Inr (relay w req)))))))\<close>

subsection \<open>Requests that pass validation\<close>

text \<open>
  A submission passes validation when the method is \<^verbatim>\<open>POST\<close>, the secret is configured,
  the body (or \<^verbatim>\<open>{}\<close> in its place) parses to \<open>payload\<close>, and \<^verbatim>\<open>payload.contents\<close> is an
  array.
\<close>

definition validated :: "platform \<Rightarrow> event \<Rightarrow> string \<Rightarrow> json \<Rightarrow> bool" where
  "validated w ev key payload \<longleftrightarrow>
     httpMethod ev = ''POST'' \<and>
     GEMINI_API_KEY w = Some key \<and> key \<noteq> [] \<and>
     JSON_parse w (body_or_empty_object (body ev)) = Some payload \<and>
     isArray (own_prop payload ''contents'')"

subsection \<open>Sample platforms, events and upstream responses\<close>

text \<open>
  The instances the general theorems are run on. \<open>sample_texts\<close> lists what \<^verbatim>\<open>JSON.parse\<close>
  returns on the request bodies used below; the sample parser answers from that list
  and throws on every other text, which is what \<^verbatim>\<open>JSON.parse\<close> does on \<^verbatim>\<open>not json\<close>.
  The sample \<^verbatim>\<open>fetch\<close> settles every call with the same outcome.
\<close>

definition sample_texts :: "(string \<times> json) list" where
  \<open>sample_texts =
     [(''{}'', JObj []),
      (''null'', JNull),
      (''{"foo":1}'', JObj [(''foo'', JNum ''1'')]),
      (''{"contents":[{"role":"user","parts":[{"text":"hi"}]}]}'',
         JObj [(''contents'',
           JArr [JObj [(''role'', JStr ''user''),
                       (''parts'', JArr [JObj [(''text'', JStr ''hi'')]])]])]),
      (''{"contents":[],"generationConfig":false}'',
         JObj [(''contents'', JArr []), (''generationConfig'', JBool False)]),
      (''{"contents":[],"generationConfig":{"topK":1},"model":"m","extra":true}'',
         JObj [(''contents'', JArr []),
               (''generationConfig'', JObj [(''topK'', JNum ''1'')]),
               (''model'', JStr ''m''), (''extra'', JBool True)]),
      (''{"contents":[],"model":{"toString":1}}'',
         JObj [(''contents'', JArr []),
               (''model'', JObj [(''toString'', JNum ''1'')])])]\<close>

definition sample_platform :: "string option \<Rightarrow> (rejection + upstream_response) \<Rightarrow> platform" where
  "sample_platform key outcome =
     \<lparr>JSON_parse = map_of sample_texts, GEMINI_API_KEY = key,
      now = ''2024-05-01T12:00:00.000Z'', fetch = (\<lambda>req. outcome)\<rparr>"

definition hi_event :: event where
  \<open>hi_event = \<lparr>httpMethod = ''POST'',
      body = BodyText ''{"contents":[{"role":"user","parts":[{"text":"hi"}]}]}''\<rparr>\<close>

definition hi_payload :: json where
  "hi_payload =
     JObj [(''contents'',
       JArr [JObj [(''role'', JStr ''user''),
                   (''parts'', JArr [JObj [(''text'', JStr ''hi'')]])]])]"

definition hi_request :: fetch_request where
  \<open>hi_request =
     \<lparr>url = ''https://generativelanguage.googleapis.com/v1beta/models/gemini-2.5-flash:generateContent?key=k'',
      fetch_method = ''POST'',
      fetch_headers = [(''Content-Type'', ''application/json'')],
      fetch_body = ''{"contents":[{"role":"user","parts":[{"text":"hi"}]}],"generationConfig":{"temperature":0.8,"topK":40,"topP":0.95,"maxOutputTokens":1024}}''\<rparr>\<close>

definition options_event :: event where
  \<open>options_event = \<lparr>httpMethod = ''POST'',
      body = BodyText ''{"contents":[],"generationConfig":{"topK":1},"model":"m","extra":true}''\<rparr>\<close>

definition options_payload :: json where
  "options_payload =
     JObj [(''contents'', JArr []),
           (''generationConfig'', JObj [(''topK'', JNum ''1'')]),
           (''model'', JStr ''m''), (''extra'', JBool True)]"

definition options_request :: fetch_request where
  \<open>options_request =
     \<lparr>url = ''https://generativelanguage.googleapis.com/v1beta/models/m:generateContent?key=k'',
      fetch_method = ''POST'',
      fetch_headers = [(''Content-Type'', ''application/json'')],
      fetch_body = ''{"contents":[],"generationConfig":{"topK":1}}''\<rparr>\<close>

definition false_config_event :: event where
  \<open>false_config_event = \<lparr>httpMethod = ''POST'',
      body = BodyText ''{"contents":[],"generationConfig":false}''\<rparr>\<close>

definition false_config_payload :: json where
  "false_config_payload =
     JObj [(''contents'', JArr []), (''generationConfig'', JBool False)]"

definition candidates_response :: upstream_response where
  \<open>candidates_response =
     \<lparr>status = 200, text_result = Inr ''{"candidates":[]}'',
      json_result = Inr (JObj [(''candidates'', JArr [])])\<rparr>\<close>

definition rate_limited_response :: upstream_response where
  "rate_limited_response =
     \<lparr>status = 429, text_result = Inr ''rate limited'',
      json_result = Inl (Rejection (Some ''Unexpected token r in JSON at position 0''))\<rparr>"

definition html_response :: upstream_response where
  "html_response =
     \<lparr>status = 200, text_result = Inr ''<html></html>'',
      json_result = Inl (Rejection (Some ''Unexpected token < in JSON at position 0''))\<rparr>"

section \<open>Properties of the handler\<close>

subsection \<open>Auxiliary facts\<close>

lemmas model_defs =
  handler_def relay_def call_failed_def failure_message_def respond_def error_object_def
  upstream_request_def requestBody_def apiUrl_def or_else_def get_prop_def ok_def
  default_model_def default_generationConfig_def corsHeaders_def quote_def escape_char_def

lemmas sample_defs =
  sample_platform_def sample_texts_def validated_def hi_event_def hi_payload_def
  hi_request_def options_event_def options_payload_def options_request_def
  false_config_event_def false_config_payload_def

lemma isArray_iff: "isArray v \<longleftrightarrow> (\<exists>xs. v = Some (JArr xs))"
  by (cases v rule: isArray.cases) simp_all

lemma own_prop_Some_not_null: "own_prop p name = Some v \<Longrightarrow> p \<noteq> JNull"
  by (cases p) simp_all

lemma validated_contents:
  assumes "validated w ev key payload"
  obtains xs where "own_prop payload ''contents'' = Some (JArr xs)"
  using assms by (auto simp: validated_def isArray_iff)

text \<open>After validation the handler builds the call, and makes it unless the URL throws.\<close>

lemma handler_validated:
  assumes "validated w ev key payload"
  shows "handler w ev =
           (case upstream_request key payload of
              Inl e \<Rightarrow> ([], Inl e)
            | Inr req \<Rightarrow> ([req], Inr (relay w req)))"
proof -
  from assms obtain xs where xs: "own_prop payload ''contents'' = Some (JArr xs)"
    by (rule validated_contents)
  then have "payload \<noteq> JNull" by (rule own_prop_Some_not_null)
  with assms xs show ?thesis
    by (simp add: validated_def handler_def get_prop_def)
qed

lemma handler_calls:
  assumes "validated w ev key payload" and "upstream_request key payload = Inr req"
  shows "handler w ev = ([req], Inr (relay w req))"
  using assms by (simp add: handler_validated)

lemma fetch_body_upstream_request:
  "upstream_request key payload = Inr req \<Longrightarrow>
     fetch_body req = JSON_stringify (requestBody payload)"
  by (auto simp: upstream_request_def split: sum.splits)

text \<open>
  The call is built whenever the model is left out or is a string, as the interface
  describes it; an object with an own \<^verbatim>\<open>toString\<close> property is a model for which line 63
  throws instead.
\<close>

lemma upstream_request_defined:
  assumes "own_prop payload ''model'' = None \<or> (\<exists>m. own_prop payload ''model'' = Some (JStr m))"
  shows "\<exists>req. upstream_request key payload = Inr req"
  using assms by (auto simp: upstream_request_def apiUrl_def or_else_def default_model_def)

lemma unprintable_model_throws:
  \<open>handler (sample_platform (Some ''k'') outcome)
      \<lparr>httpMethod = ''POST'', body = BodyText ''{"contents":[],"model":{"toString":1}}''\<rparr>
    = ([], Inl TypeError)\<close>
  by (simp add: model_defs sample_defs)

lemma relay_cong: "fetch w1 req = fetch w2 req \<Longrightarrow> relay w1 req = relay w2 req"
  by (simp add: relay_def)

lemma headers_respond:
  "headers (respond code v) =
     [(''Access-Control-Allow-Origin'', ''*''),
      (''Access-Control-Allow-Methods'', ''POST,OPTIONS,GET''),
      (''Access-Control-Allow-Headers'', ''Content-Type, Authorization''),
      (''Content-Type'', ''application/json'')]"
  by (simp add: respond_def corsHeaders_def)

lemma headers_relay: "headers (relay w req) = headers (respond 0 JNull)"
  by (simp add: relay_def call_failed_def headers_respond split: sum.splits)

lemma hi_validated: "validated (sample_platform (Some ''k'') outcome) hi_event ''k'' hi_payload"
  by (simp add: sample_defs)

lemma hi_upstream_request: "upstream_request ''k'' hi_payload = Inr hi_request"
  by (simp add: model_defs sample_defs)

lemma options_validated:
  "validated (sample_platform (Some ''k'') outcome) options_event ''k'' options_payload"
  by (simp add: sample_defs)

lemma options_upstream_request: "upstream_request ''k'' options_payload = Inr options_request"
  by (simp add: model_defs sample_defs)

subsection \<open>The fixed headers\<close>

text \<open>
  Claim C1. Every response the handler returns, whatever the request, the platform and
  the upstream outcome, has as its headers exactly the four fixed ones:
  \<^verbatim>\<open>Access-Control-Allow-Origin: *\<close>, \<^verbatim>\<open>Access-Control-Allow-Methods: POST,OPTIONS,GET\<close>,
  \<^verbatim>\<open>Access-Control-Allow-Headers: Content-Type, Authorization\<close> and
  \<^verbatim>\<open>Content-Type: application/json\<close>.
\<close>

theorem cors_headers_on_every_response:
  assumes "snd (handler w ev) = Inr r"
  shows "headers r =
     [(''Access-Control-Allow-Origin'', ''*''),
      (''Access-Control-Allow-Methods'', ''POST,OPTIONS,GET''),
      (''Access-Control-Allow-Headers'', ''Content-Type, Authorization''),
      (''Content-Type'', ''application/json'')]"
proof -
  have "headers r = headers (respond 0 JNull)"
    using assms
    by (auto simp: handler_def headers_respond headers_relay corsHeaders_def
             split: if_splits option.splits sum.splits)
  then show ?thesis by (simp add: headers_respond)
qed

theorem cors_headers_on_every_response_witness:
  "snd (handler (sample_platform (Some ''k'') (Inr candidates_response)) hi_event)
     = Inr (respond 200 (JObj [(''candidates'', JArr [])]))
   \<and> headers (respond 200 (JObj [(''candidates'', JArr [])])) =
     [(''Access-Control-Allow-Origin'', ''*''),
      (''Access-Control-Allow-Methods'', ''POST,OPTIONS,GET''),
      (''Access-Control-Allow-Headers'', ''Content-Type, Authorization''),
      (''Content-Type'', ''application/json'')]"
proof -
  have h: "snd (handler (sample_platform (Some ''k'') (Inr candidates_response)) hi_event)
             = Inr (respond 200 (JObj [(''candidates'', JArr [])]))"
  proof -
    have "handler (sample_platform (Some ''k'') (Inr candidates_response)) hi_event
            = ([hi_request],
               Inr (relay (sample_platform (Some ''k'') (Inr candidates_response)) hi_request))"
      by (rule handler_calls [OF hi_validated hi_upstream_request])
    then show ?thesis
      by (simp add: relay_def ok_def sample_platform_def candidates_response_def)
  qed
  from cors_headers_on_every_response [OF h] h show ?thesis by simp
qed

subsection \<open>The upstream answers with a success status\<close>

text \<open>
  Claim C2, as the source has it. The sample request is valid and the upstream answers
  200, but with a body that is not JSON, so that \<^verbatim>\<open>response.json()\<close> rejects: the
  \<^verbatim>\<open>catch\<close> block answers 500 with the parser's message, not 200.
\<close>

theorem success_status_without_json_counterexample:
  \<open>validated (sample_platform (Some ''k'') (Inr html_response)) hi_event ''k'' hi_payload
   \<and> fetch (sample_platform (Some ''k'') (Inr html_response)) hi_request = Inr html_response
   \<and> ok html_response
   \<and> handler (sample_platform (Some ''k'') (Inr html_response)) hi_event =
       ([hi_request], Inr \<lparr>statusCode = 500, headers = corsHeaders [],
          response_body = Some ''{"error":"Unexpected token < in JSON at position 0"}''\<rparr>)\<close>
proof -
  have "handler (sample_platform (Some ''k'') (Inr html_response)) hi_event
          = ([hi_request],
             Inr (relay (sample_platform (Some ''k'') (Inr html_response)) hi_request))"
    by (rule handler_calls [OF hi_validated hi_upstream_request])
  moreover have \<open>relay (sample_platform (Some ''k'') (Inr html_response)) hi_request
      = \<lparr>statusCode = 500, headers = corsHeaders [],
          response_body = Some ''{"error":"Unexpected token < in JSON at position 0"}''\<rparr>\<close>
    by (simp add: relay_def ok_def sample_platform_def html_response_def call_failed_def
          failure_message_def respond_def error_object_def quote_def escape_char_def)
  moreover have "ok html_response"
    by (simp add: ok_def html_response_def)
  ultimately show ?thesis
    using hi_validated by (simp add: sample_platform_def)
qed

text \<open>
  Claim C2, amended. For every request that passes validation and whose call is made,
  if the upstream answers with a success status and its body parses as JSON
  (\<^verbatim>\<open>response.json()\<close> yields the value \<open>d\<close>), the handler makes that one call and
  responds 200 with the fixed headers and the body \<^verbatim>\<open>JSON.stringify(d)\<close>: the upstream's
  JSON value, unchanged.
\<close>

theorem success_relays_parsed_body:
  assumes "validated w ev key payload"
    and "upstream_request key payload = Inr req"
    and "fetch w req = Inr up"
    and "ok up"
    and "json_result up = Inr d"
  shows "handler w ev =
           ([req], Inr \<lparr>statusCode = 200, headers = corsHeaders [],
                        response_body = Some (JSON_stringify d)\<rparr>)"
  using assms by (simp add: handler_calls relay_def respond_def)

theorem success_relays_parsed_body_witness:
  \<open>validated (sample_platform (Some ''k'') (Inr candidates_response)) hi_event ''k'' hi_payload
   \<and> upstream_request ''k'' hi_payload = Inr hi_request
   \<and> fetch (sample_platform (Some ''k'') (Inr candidates_response)) hi_request
       = Inr candidates_response
   \<and> ok candidates_response
   \<and> json_result candidates_response = Inr (JObj [(''candidates'', JArr [])])
   \<and> handler (sample_platform (Some ''k'') (Inr candidates_response)) hi_event =
       ([hi_request], Inr \<lparr>statusCode = 200, headers = corsHeaders [],
                            response_body = Some ''{"candidates":[]}''\<rparr>)\<close>
proof -
  have f: "fetch (sample_platform (Some ''k'') (Inr candidates_response)) hi_request
             = Inr candidates_response"
    by (simp add: sample_platform_def)
  have o: "ok candidates_response"
    by (simp add: ok_def candidates_response_def)
  have j: "json_result candidates_response = Inr (JObj [(''candidates'', JArr [])])"
    by (simp add: candidates_response_def)
  from success_relays_parsed_body [OF hi_validated hi_upstream_request f o j]
    hi_validated hi_upstream_request f o j
  show ?thesis by (simp add: quote_def escape_char_def)
qed

subsection \<open>The upstream answers with an error status\<close>

text \<open>
  Claim C3. For every request that passes validation, if the upstream answers with a
  status \<open>S\<close> that is not a success status and the error body text \<open>T\<close>, the handler
  responds with status \<open>S\<close> and the JSON object whose \<^verbatim>\<open>error\<close> is
  \<^verbatim>\<open>Gemini API Error: \<close> followed by \<open>S\<close> in decimal and whose \<^verbatim>\<open>details\<close> is \<open>T\<close>.
\<close>

theorem upstream_error_relayed:
  assumes "validated w ev key payload"
    and "upstream_request key payload = Inr req"
    and "fetch w req = Inr up"
    and "\<not> ok up"
    and "text_result up = Inr errorText"
  shows "handler w ev =
           ([req], Inr \<lparr>statusCode = status up, headers = corsHeaders [],
                        response_body = Some (JSON_stringify
                          (JObj [(''error'', JStr (''Gemini API Error: '' @ decimal (status up))),
                                 (''details'', JStr errorText)]))\<rparr>)"
  using assms by (simp add: handler_calls relay_def respond_def)

theorem upstream_error_relayed_witness:
  \<open>validated (sample_platform (Some ''k'') (Inr rate_limited_response)) hi_event ''k'' hi_payload
   \<and> upstream_request ''k'' hi_payload = Inr hi_request
   \<and> fetch (sample_platform (Some ''k'') (Inr rate_limited_response)) hi_request
       = Inr rate_limited_response
   \<and> \<not> ok rate_limited_response
   \<and> text_result rate_limited_response = Inr ''rate limited''
   \<and> handler (sample_platform (Some ''k'') (Inr rate_limited_response)) hi_event =
       ([hi_request], Inr \<lparr>statusCode = 429, headers = corsHeaders [],
          response_body = Some ''{"error":"Gemini API Error: 429","details":"rate limited"}''\<rparr>)\<close>
proof -
  have f: "fetch (sample_platform (Some ''k'') (Inr rate_limited_response)) hi_request
             = Inr rate_limited_response"
    by (simp add: sample_platform_def)
  have o: "\<not> ok rate_limited_response"
    by (simp add: ok_def rate_limited_response_def)
  have t: "text_result rate_limited_response = Inr ''rate limited''"
    by (simp add: rate_limited_response_def)
  have s: "status rate_limited_response = 429"
    by (simp add: rate_limited_response_def)
  have d: "decimal 429 = ''429''"
    by (simp add: decimal.simps digit_char_def)
  from upstream_error_relayed [OF hi_validated hi_upstream_request f o t]
    hi_validated hi_upstream_request f o t
  show ?thesis by (simp add: s d quote_def escape_char_def)
qed

subsection \<open>The secret is missing\<close>

text \<open>
  Claim C4. For every POST request, whatever its body, if \<^verbatim>\<open>GEMINI_API_KEY\<close> is not set
  the handler responds 500 with an error object that says so, and makes no call.
\<close>

theorem missing_secret_500_no_call:
  assumes "httpMethod ev = ''POST''" and "GEMINI_API_KEY w = None"
  shows "handler w ev =
           ([], Inr \<lparr>statusCode = 500, headers = corsHeaders [],
                     response_body = Some (JSON_stringify (JObj [(''error'',
                       JStr ''GEMINI_API_KEY not configured in Netlify environment variables'')]))\<rparr>)"
  using assms by (simp add: handler_def respond_def error_object_def)

theorem missing_secret_500_no_call_witness:
  \<open>httpMethod hi_event = ''POST''
   \<and> GEMINI_API_KEY (sample_platform None (Inr candidates_response)) = None
   \<and> handler (sample_platform None (Inr candidates_response)) hi_event =
       ([], Inr \<lparr>statusCode = 500, headers = corsHeaders [],
          response_body = Some
            ''{"error":"GEMINI_API_KEY not configured in Netlify environment variables"}''\<rparr>)\<close>
proof -
  have m: "httpMethod hi_event = ''POST''"
    by (simp add: hi_event_def)
  have k: "GEMINI_API_KEY (sample_platform None (Inr candidates_response)) = None"
    by (simp add: sample_platform_def)
  from missing_secret_500_no_call [OF m k] m k
  show ?thesis by (simp add: quote_def escape_char_def)
qed

text \<open>A secret set to the empty string is falsy as well, and is treated as missing.\<close>

lemma empty_secret_500_no_call:
  assumes "httpMethod ev = ''POST''" and "GEMINI_API_KEY w = Some []"
  shows "handler w ev =
           ([], Inr (respond 500 (error_object
              ''GEMINI_API_KEY not configured in Netlify environment variables'')))"
  using assms by (simp add: handler_def)

subsection \<open>Validation of the body\<close>

text \<open>
  What the two validation branches do: a body that does not parse gives 400 with
  \<^verbatim>\<open>Invalid JSON body\<close>; a parsed body other than \<^verbatim>\<open>null\<close> whose \<^verbatim>\<open>contents\<close> is missing
  or is not an array gives 400 with the message that asks for the array. Neither makes
  a call.
\<close>

lemma validation_rejects:
  assumes "httpMethod ev = ''POST''" and "GEMINI_API_KEY w = Some key" and "key \<noteq> []"
  shows "JSON_parse w (body_or_empty_object (body ev)) = None \<Longrightarrow>
           handler w ev = ([], Inr (respond 400 (error_object ''Invalid JSON body'')))"
    and \<open>JSON_parse w (body_or_empty_object (body ev)) = Some payload \<Longrightarrow>
           payload \<noteq> JNull \<Longrightarrow> \<not> isArray (own_prop payload ''contents'') \<Longrightarrow>
           handler w ev =
             ([], Inr (respond 400 (error_object ''Request must include "contents" array'')))\<close>
  using assms by (simp_all add: handler_def get_prop_def)

text \<open>
  Claim C5 says that every body that fails to parse, or has no \<^verbatim>\<open>contents\<close>, or whose
  \<^verbatim>\<open>contents\<close> is not an array, is answered with 400. The body \<^verbatim>\<open>null\<close> parses, to
  \<^verbatim>\<open>null\<close>, which has no \<^verbatim>\<open>contents\<close>; the check of line 53 reads \<^verbatim>\<open>payload.contents\<close>
  outside every \<^verbatim>\<open>try\<close> block, the read throws, and the handler returns no response.
\<close>

theorem null_payload_throws:
  \<open>JSON_parse (sample_platform (Some ''k'') (Inr candidates_response)) ''null'' = Some JNull
   \<and> handler (sample_platform (Some ''k'') (Inr candidates_response))
        \<lparr>httpMethod = ''POST'', body = BodyText ''null''\<rparr> = ([], Inl TypeError)\<close>
  by (simp add: handler_def sample_platform_def sample_texts_def get_prop_def)

text \<open>On that input no call is made and no response comes back.\<close>

theorem null_payload_throws_witness:
  "fst (handler (sample_platform (Some ''k'') (Inr candidates_response))
        \<lparr>httpMethod = ''POST'', body = BodyText ''null''\<rparr>) = []
   \<and> snd (handler (sample_platform (Some ''k'') (Inr candidates_response))
        \<lparr>httpMethod = ''POST'', body = BodyText ''null''\<rparr>) = Inl TypeError"
  using null_payload_throws by simp

subsection \<open>The call itself fails\<close>

text \<open>
  Claim C6. For every request that passes validation, if \<^verbatim>\<open>fetch\<close> rejects, the handler
  returns a response (it does not throw): status 500 and an error object whose \<^verbatim>\<open>error\<close>
  is the message of the rejection, or \<^verbatim>\<open>Failed to call Gemini API\<close> when the rejection
  has no message or an empty one.
\<close>

theorem transport_failure_500:
  assumes "validated w ev key payload"
    and "upstream_request key payload = Inr req"
    and "fetch w req = Inl err"
  shows "handler w ev =
           ([req], Inr \<lparr>statusCode = 500, headers = corsHeaders [],
                        response_body = Some (JSON_stringify (JObj [(''error'',
                          JStr (case message err of
                                  None \<Rightarrow> ''Failed to call Gemini API''
                                | Some m \<Rightarrow> if m = [] then ''Failed to call Gemini API'' else m))]))\<rparr>)"
  using assms
  by (simp add: handler_calls relay_def respond_def call_failed_def failure_message_def
        error_object_def)

theorem transport_failure_500_witness:
  \<open>validated (sample_platform (Some ''k'') (Inl (Rejection (Some ''socket hang up''))))
      hi_event ''k'' hi_payload
   \<and> upstream_request ''k'' hi_payload = Inr hi_request
   \<and> fetch (sample_platform (Some ''k'') (Inl (Rejection (Some ''socket hang up'')))) hi_request
       = Inl (Rejection (Some ''socket hang up''))
   \<and> handler (sample_platform (Some ''k'') (Inl (Rejection (Some ''socket hang up'')))) hi_event =
       ([hi_request], Inr \<lparr>statusCode = 500, headers = corsHeaders [],
          response_body = Some ''{"error":"socket hang up"}''\<rparr>)
   \<and> handler (sample_platform (Some ''k'') (Inl (Rejection None))) hi_event =
       ([hi_request], Inr \<lparr>statusCode = 500, headers = corsHeaders [],
          response_body = Some ''{"error":"Failed to call Gemini API"}''\<rparr>)\<close>
proof -
  have f: "fetch (sample_platform (Some ''k'') (Inl (Rejection (Some ''socket hang up''))))
             hi_request = Inl (Rejection (Some ''socket hang up''))"
    by (simp add: sample_platform_def)
  have g: "fetch (sample_platform (Some ''k'') (Inl (Rejection None))) hi_request
             = Inl (Rejection None)"
    by (simp add: sample_platform_def)
  from transport_failure_500 [OF hi_validated hi_upstream_request f]
    transport_failure_500 [OF hi_validated hi_upstream_request g]
    hi_validated hi_upstream_request f
  show ?thesis by (simp add: quote_def escape_char_def)
qed

subsection \<open>The body sent upstream\<close>

text \<open>
  Claim C7, as the source has it. The request supplies \<^verbatim>\<open>generationConfig: false\<close>
  beside an array of contents and passes validation; \<^verbatim>\<open>false || {...}\<close> is the default,
  so the body sent upstream carries the default configuration and not the supplied
  value.
\<close>

theorem falsy_generationConfig_counterexample:
  \<open>validated (sample_platform (Some ''k'') (Inr candidates_response))
      false_config_event ''k'' false_config_payload
   \<and> own_prop false_config_payload ''generationConfig'' = Some (JBool False)
   \<and> map fetch_body
       (fst (handler (sample_platform (Some ''k'') (Inr candidates_response)) false_config_event))
     = [''{"contents":[],"generationConfig":{"temperature":0.8,"topK":40,"topP":0.95,"maxOutputTokens":1024}}'']
   \<and> JSON_stringify (JObj [(''contents'', JArr []), (''generationConfig'', JBool False)])
     = ''{"contents":[],"generationConfig":false}''\<close>
  by (simp add: model_defs sample_defs)

text \<open>
  Claim C7, amended. For every request that passes validation, the handler makes the
  one call, and the body of that call is the serialisation of an object whose
  \<^verbatim>\<open>contents\<close> is the inbound \<^verbatim>\<open>contents\<close>, and whose \<^verbatim>\<open>generationConfig\<close> is the inbound
  one whenever that is supplied and truthy (every object is), and is the default
  \<^verbatim>\<open>{temperature: 0.8, topK: 40, topP: 0.95, maxOutputTokens: 1024}\<close> whenever the inbound
  one is missing or falsy (\<^verbatim>\<open>null\<close>, \<^verbatim>\<open>false\<close>, \<^verbatim>\<open>0\<close>, the empty string).
\<close>

theorem upstream_body_contents_and_config:
  assumes "validated w ev key payload" and "upstream_request key payload = Inr req"
  shows "fst (handler w ev) = [req] \<and>
    (\<exists>contents. own_prop payload ''contents'' = Some contents \<and>
      (\<forall>g. own_prop payload ''generationConfig'' = Some g \<and> truthy (Some g) \<longrightarrow>
         fetch_body req =
           JSON_stringify (JObj [(''contents'', contents), (''generationConfig'', g)])) \<and>
      (\<not> truthy (own_prop payload ''generationConfig'') \<longrightarrow>
         fetch_body req =
           JSON_stringify (JObj [(''contents'', contents),
             (''generationConfig'',
                JObj [(''temperature'', JNum ''0.8''), (''topK'', JNum ''40''),
                      (''topP'', JNum ''0.95''), (''maxOutputTokens'', JNum ''1024'')])])))"
proof -
  from assms(1) obtain xs where xs: "own_prop payload ''contents'' = Some (JArr xs)"
    by (rule validated_contents)
  have b: "fetch_body req = JSON_stringify (requestBody payload)"
    using assms(2) by (rule fetch_body_upstream_request)
  have "fst (handler w ev) = [req]"
    using assms by (simp add: handler_calls)
  moreover have "\<forall>g. own_prop payload ''generationConfig'' = Some g \<and> truthy (Some g) \<longrightarrow>
      fetch_body req =
        JSON_stringify (JObj [(''contents'', JArr xs), (''generationConfig'', g)])"
    by (simp add: b xs requestBody_def or_else_def)
  moreover have "\<not> truthy (own_prop payload ''generationConfig'') \<longrightarrow>
      fetch_body req =
        JSON_stringify (JObj [(''contents'', JArr xs),
          (''generationConfig'',
             JObj [(''temperature'', JNum ''0.8''), (''topK'', JNum ''40''),
                   (''topP'', JNum ''0.95''), (''maxOutputTokens'', JNum ''1024'')])])"
    by (simp add: b xs requestBody_def or_else_def default_generationConfig_def
          split: option.splits)
  ultimately show ?thesis using xs by blast
qed

theorem upstream_body_contents_and_config_witness:
  \<open>validated (sample_platform (Some ''k'') (Inr candidates_response))
      options_event ''k'' options_payload
   \<and> upstream_request ''k'' options_payload = Inr options_request
   \<and> own_prop options_payload ''contents'' = Some (JArr [])
   \<and> own_prop options_payload ''generationConfig'' = Some (JObj [(''topK'', JNum ''1'')])
   \<and> fst (handler (sample_platform (Some ''k'') (Inr candidates_response)) options_event)
       = [options_request]
   \<and> fetch_body options_request =
       JSON_stringify (JObj [(''contents'', JArr []),
                             (''generationConfig'', JObj [(''topK'', JNum ''1'')])])\<close>
proof -
  have c: "own_prop options_payload ''contents'' = Some (JArr [])"
    and g: "own_prop options_payload ''generationConfig'' = Some (JObj [(''topK'', JNum ''1'')])"
    by (simp_all add: options_payload_def)
  from upstream_body_contents_and_config [OF options_validated options_upstream_request,
      of "Inr candidates_response"]
    options_validated options_upstream_request c g
  show ?thesis by simp
qed






subsection \<open>Determinism of the submission path\<close>

lemma post_shape:
  assumes "httpMethod ev = ''POST''"
    and "GEMINI_API_KEY w1 = GEMINI_API_KEY w2"
    and "JSON_parse w1 (body_or_empty_object (body ev))
           = JSON_parse w2 (body_or_empty_object (body ev))"
  shows "(\<exists>res. handler w1 ev = ([], res) \<and> handler w2 ev = ([], res)) \<or>
         (\<exists>req. handler w1 ev = ([req], Inr (relay w1 req)) \<and>
                handler w2 ev = ([req], Inr (relay w2 req)))"
  using assms
  by (simp add: handler_def split: option.splits sum.splits)

text \<open>
  Claim C8. Two runs of the handler on the same POST request, with the same secret, the
  same reading of the body by \<^verbatim>\<open>JSON.parse\<close> and an upstream that settles the call the
  handler makes in the same way, make the same call and return the same response
  (status, headers and body), whatever else differs between the two runs; in the
  model, the clock.
\<close>

theorem post_path_deterministic:
  assumes "httpMethod ev = ''POST''"
    and "GEMINI_API_KEY w1 = GEMINI_API_KEY w2"
    and "JSON_parse w1 (body_or_empty_object (body ev))
           = JSON_parse w2 (body_or_empty_object (body ev))"
    and "\<forall>req. fst (handler w1 ev) = [req] \<longrightarrow> fetch w1 req = fetch w2 req"
  shows "handler w1 ev = handler w2 ev"
proof -
  from post_shape [OF assms(1-3)] show ?thesis
  proof (elim disjE exE conjE)
    fix res
    assume "handler w1 ev = ([], res)" and "handler w2 ev = ([], res)"
    then show ?thesis by simp
  next
    fix req
    assume h1: "handler w1 ev = ([req], Inr (relay w1 req))"
      and h2: "handler w2 ev = ([req], Inr (relay w2 req))"
    from h1 assms(4) have "fetch w1 req = fetch w2 req" by simp
    then have "relay w1 req = relay w2 req" by (rule relay_cong)
    with h1 h2 show ?thesis by simp
  qed
qed

theorem post_path_deterministic_witness:
  "httpMethod hi_event = ''POST''
   \<and> now (sample_platform (Some ''k'') (Inr candidates_response)
           \<lparr>now := ''2031-01-01T00:00:00.000Z''\<rparr>)
       \<noteq> now (sample_platform (Some ''k'') (Inr candidates_response))
   \<and> handler (sample_platform (Some ''k'') (Inr candidates_response)) hi_event
       = handler (sample_platform (Some ''k'') (Inr candidates_response)
           \<lparr>now := ''2031-01-01T00:00:00.000Z''\<rparr>) hi_event"
proof -
  have m: "httpMethod hi_event = ''POST''"
    by (simp add: hi_event_def)
  from post_path_deterministic [of hi_event
      "sample_platform (Some ''k'') (Inr candidates_response)"
      "sample_platform (Some ''k'') (Inr candidates_response)
         \<lparr>now := ''2031-01-01T00:00:00.000Z''\<rparr>", OF m] m
  show ?thesis by (simp add: sample_platform_def)
qed

text \<open>The health check is where the clock shows: two runs at different times differ.\<close>

lemma get_depends_on_clock:
  "handler (sample_platform None (Inr candidates_response)
        \<lparr>now := ''2031-01-01T00:00:00.000Z''\<rparr>) \<lparr>httpMethod = ''GET'', body = BodyNull\<rparr>
     \<noteq> handler (sample_platform None (Inr candidates_response))
          \<lparr>httpMethod = ''GET'', body = BodyNull\<rparr>"
  by (simp add: handler_def sample_platform_def respond_def quote_def escape_char_def)

subsection \<open>An empty body\<close>

lemma error_bodies_differ:
  \<open>JSON_stringify (JObj [(''error'', JStr ''Request must include "contents" array'')])
     \<noteq> JSON_stringify (JObj [(''error'', JStr ''Invalid JSON body'')])\<close>
  by (simp add: quote_def escape_char_def)

lemma empty_object_rejected:
  assumes "httpMethod ev = ''POST''" and "GEMINI_API_KEY w = Some key" and "key \<noteq> []"
    and "JSON_parse w (body_or_empty_object (body ev)) = Some (JObj [])"
  shows \<open>handler w ev =
           ([], Inr (respond 400 (error_object ''Request must include "contents" array'')))\<close>
  using assms by (simp add: handler_def get_prop_def)

lemma invalid_json_only_when_parse_fails:
  assumes "httpMethod ev = ''POST''" and "GEMINI_API_KEY w = Some key" and "key \<noteq> []"
    and "handler w ev = ([], Inr (respond 400 (error_object ''Invalid JSON body'')))"
  shows "JSON_parse w (body_or_empty_object (body ev)) = None"
proof (cases "JSON_parse w (body_or_empty_object (body ev))")
  case None
  then show ?thesis .
next
  case (Some payload)
  with assms(1-3) have \<open>handler w ev =
      (case get_prop payload ''contents'' of
         Inl e \<Rightarrow> ([], Inl e)
       | Inr contents \<Rightarrow>
           if \<not> truthy contents \<or> \<not> isArray contents then
             ([], Inr (respond 400 (error_object
                ''Request must include "contents" array'')))
           else
             (case upstream_request key payload of
                Inl e \<Rightarrow> ([], Inl e)
              | Inr req \<Rightarrow> ([req], Inr (relay w req))))\<close>
    by (simp add: handler_def)
  with assms(4) have False
    using error_bodies_differ
    by (simp add: respond_def error_object_def split: sum.splits if_splits)
  then show ?thesis ..
qed

text \<open>
  Claim C9. For every POST request with the secret configured, on a platform whose
  \<^verbatim>\<open>JSON.parse\<close> reads \<^verbatim>\<open>{}\<close> as the empty object: a body that is absent, \<^verbatim>\<open>null\<close> or the
  empty string is answered with 400 and the message that asks for the \<^verbatim>\<open>contents\<close>
  array, with no call made; and the handler answers with the 400 of
  \<^verbatim>\<open>Invalid JSON body\<close> only when the body is a non-empty text that fails to parse.
\<close>

theorem empty_body_is_empty_object:
  assumes "httpMethod ev = ''POST''" and "GEMINI_API_KEY w = Some key" and "key \<noteq> []"
    and "JSON_parse w ''{}'' = Some (JObj [])"
  shows \<open>(body ev = BodyUndefined \<or> body ev = BodyNull \<or> body ev = BodyText [] \<longrightarrow>
            handler w ev =
              ([], Inr \<lparr>statusCode = 400, headers = corsHeaders [],
                 response_body = Some (JSON_stringify
                   (JObj [(''error'', JStr ''Request must include "contents" array'')]))\<rparr>))
        \<and> (handler w ev =
              ([], Inr \<lparr>statusCode = 400, headers = corsHeaders [],
                 response_body = Some (JSON_stringify
                   (JObj [(''error'', JStr ''Invalid JSON body'')]))\<rparr>) \<longrightarrow>
            (\<exists>s. body ev = BodyText s \<and> s \<noteq> [] \<and> JSON_parse w s = None))\<close>
proof (intro conjI impI)
  assume "body ev = BodyUndefined \<or> body ev = BodyNull \<or> body ev = BodyText []"
  then have "body_or_empty_object (body ev) = ''{}''" by auto
  with assms(4) have "JSON_parse w (body_or_empty_object (body ev)) = Some (JObj [])" by simp
  from empty_object_rejected [OF assms(1-3) this]
  show \<open>handler w ev =
          ([], Inr \<lparr>statusCode = 400, headers = corsHeaders [],
             response_body = Some (JSON_stringify
               (JObj [(''error'', JStr ''Request must include "contents" array'')]))\<rparr>)\<close>
    by (simp add: respond_def error_object_def)
next
  assume "handler w ev =
              ([], Inr \<lparr>statusCode = 400, headers = corsHeaders [],
                 response_body = Some (JSON_stringify
                   (JObj [(''error'', JStr ''Invalid JSON body'')]))\<rparr>)"
  then have "handler w ev = ([], Inr (respond 400 (error_object ''Invalid JSON body'')))"
    by (simp add: respond_def error_object_def)
  from invalid_json_only_when_parse_fails [OF assms(1-3) this]
  have n: "JSON_parse w (body_or_empty_object (body ev)) = None" .
  show "\<exists>s. body ev = BodyText s \<and> s \<noteq> [] \<and> JSON_parse w s = None"
  proof (cases "body ev")
    case BodyUndefined
    with n assms(4) show ?thesis by simp
  next
    case BodyNull
    with n assms(4) show ?thesis by simp
  next
    case (BodyText s)
    with n assms(4) show ?thesis by (cases "s = []") simp_all
  qed
qed

theorem empty_body_is_empty_object_witness:
  \<open>JSON_parse (sample_platform (Some ''k'') (Inr candidates_response)) ''{}'' = Some (JObj [])
   \<and> handler (sample_platform (Some ''k'') (Inr candidates_response))
        \<lparr>httpMethod = ''POST'', body = BodyText []\<rparr> =
       ([], Inr \<lparr>statusCode = 400, headers = corsHeaders [],
          response_body = Some (JSON_stringify
            (JObj [(''error'', JStr ''Request must include "contents" array'')]))\<rparr>)
   \<and> handler (sample_platform (Some ''k'') (Inr candidates_response))
        \<lparr>httpMethod = ''POST'', body = BodyNull\<rparr> =
       ([], Inr \<lparr>statusCode = 400, headers = corsHeaders [],
          response_body = Some (JSON_stringify
            (JObj [(''error'', JStr ''Request must include "contents" array'')]))\<rparr>)\<close>
proof -
  have p: "JSON_parse (sample_platform (Some ''k'') (Inr candidates_response)) ''{}''
             = Some (JObj [])"
    and k: "GEMINI_API_KEY (sample_platform (Some ''k'') (Inr candidates_response)) = Some ''k''"
    by (simp_all add: sample_platform_def sample_texts_def)
  from empty_body_is_empty_object [of "\<lparr>httpMethod = ''POST'', body = BodyText []\<rparr>"
      "sample_platform (Some ''k'') (Inr candidates_response)" "''k''", OF _ k _ p]
    empty_body_is_empty_object [of "\<lparr>httpMethod = ''POST'', body = BodyNull\<rparr>"
      "sample_platform (Some ''k'') (Inr candidates_response)" "''k''", OF _ k _ p] p
  show ?thesis by simp
qed

end
